theory Spec2Isabelle
  imports Main "HOL-Library.Word"
begin

section \<open>The NETSSD kernel module (src/net/ssd/netssd.c)\<close>

text \<open>
  The module consists of three global objects (\<open>netssd_proto\<close>, \<open>netssd_protocol\<close>,
  \<open>netssd_protosw\<close>), six handlers that the kernel calls through function pointers, and
  the load and unload functions \<open>netssd_init_module\<close> and \<open>netssd_cleanup_module\<close>.
  Everything else the file mentions (\<open>printk\<close>, \<open>proto_register\<close>, the constants
  \<open>SOCK_RAW\<close>, \<open>KERN_INFO\<close>, ...) comes from the kernel headers that \<open>netssd.h\<close>
  includes; those are taken as parameters, collected in the record \<open>kernel\<close> below.
\<close>

subsection \<open>Types\<close>

type_synonym c_int = "32 word"
type_synonym u32 = "32 word"

text \<open>The functions of the module, as the values of function pointers.\<close>

datatype handler =
    Fn_netssd_close
  | Fn_netssd_sendmsg
  | Fn_netssd_recvmsg
  | Fn_netssd_hash
  | Fn_netssd_rcv
  | Fn_netssd_err

text \<open>
  The addresses the module takes or stores: of its own three globals, of the kernel's
  \<open>inet_dgram_ops\<close> (declared \<open>extern\<close> at line 81) and of \<open>THIS_MODULE\<close>. \<open>NULL\<close> is
  what \<open>memset\<close> with 0 leaves in a pointer field.
\<close>

datatype addr =
    NULL
  | Addr_netssd_proto
  | Addr_netssd_protocol
  | Addr_netssd_protosw
  | Addr_inet_dgram_ops
  | Addr_THIS_MODULE

text \<open>
  \<open>struct proto\<close>, \<open>struct net_protocol\<close> and \<open>struct inet_protosw\<close> are kernel types;
  the records have the fields that the module initialises or assigns (every other
  field of the C structs is zero and is never touched by the module).
\<close>

record proto =
  proto_name :: string
  proto_owner :: addr
  proto_close :: "handler option"
  proto_sendmsg :: "handler option"
  proto_hash :: "handler option"
  proto_recvmsg :: "handler option"
  proto_obj_size :: "32 word"

record net_protocol =
  np_handler :: "handler option"
  np_err_handler :: "handler option"
  np_no_policy :: "32 word"

record inet_protosw =
  sw_type :: "16 word"
  sw_protocol :: "16 word"
  sw_prot :: addr
  sw_ops :: addr
  sw_flags :: "8 word"

text \<open>
  The state: the two mutable globals of the module (\<open>netssd_protocol\<close> is \<open>const\<close>) and
  the state \<open>kern\<close> of the rest of the kernel, of which the module knows nothing.
\<close>

record 'k machine =
  netssd_proto :: proto
  netssd_protosw :: inet_protosw
  kern :: 'k

text \<open>
  What the kernel headers provide. The kernel functions receive pointers, so each
  of them may read and write the whole state; the ones that return \<open>int\<close> return it
  with the new state.
\<close>

record 'k kernel =
  KERN_INFO :: string
  SOCK_RAW :: "16 word"
  INET_PROTOSW_REUSE :: "8 word"
  sizeof_netssd_sock :: "32 word"
  printk :: "string \<Rightarrow> 'k machine \<Rightarrow> c_int \<times> 'k machine"
  proto_register :: "addr \<Rightarrow> c_int \<Rightarrow> 'k machine \<Rightarrow> c_int \<times> 'k machine"
  proto_unregister :: "addr \<Rightarrow> 'k machine \<Rightarrow> 'k machine"
  inet_add_protocol :: "addr \<Rightarrow> 8 word \<Rightarrow> 'k machine \<Rightarrow> c_int \<times> 'k machine"
  inet_del_protocol :: "addr \<Rightarrow> 8 word \<Rightarrow> 'k machine \<Rightarrow> c_int \<times> 'k machine"
  inet_register_protosw :: "addr \<Rightarrow> 'k machine \<Rightarrow> 'k machine"

subsection \<open>Constants and initial values of the globals\<close>

definition IPPROTO_NETSSDPROTO :: nat where
  "IPPROTO_NETSSDPROTO = 14"

definition newline :: char where
  "newline = CHR 0x0A"

text \<open>Lines 35--44: the initialiser of \<open>netssd_proto\<close>.\<close>

definition netssd_proto_init :: "'k kernel \<Rightarrow> proto" where
  "netssd_proto_init K =
     \<lparr>proto_name = ''NETSSD'',
      proto_owner = Addr_THIS_MODULE,
      proto_close = Some Fn_netssd_close,
      proto_sendmsg = Some Fn_netssd_sendmsg,
      proto_hash = Some Fn_netssd_hash,
      proto_recvmsg = Some Fn_netssd_recvmsg,
      proto_obj_size = sizeof_netssd_sock K\<rparr>"

text \<open>Lines 46--50: the constant \<open>netssd_protocol\<close>.\<close>

definition netssd_protocol :: net_protocol where
  "netssd_protocol =
     \<lparr>np_handler = Some Fn_netssd_rcv,
      np_err_handler = Some Fn_netssd_err,
      np_no_policy = 1\<rparr>"

text \<open>Line 52: \<open>netssd_protosw\<close> is static, hence all zero at load time; line 76 zeroes
  it again with \<open>memset\<close>.\<close>

definition zero_protosw :: inet_protosw where
  "zero_protosw =
     \<lparr>sw_type = 0, sw_protocol = 0, sw_prot = NULL, sw_ops = NULL, sw_flags = 0\<rparr>"

definition load_state :: "'k kernel \<Rightarrow> 'k \<Rightarrow> 'k machine" where
  "load_state K k =
     \<lparr>netssd_proto = netssd_proto_init K, netssd_protosw = zero_protosw, kern = k\<rparr>"

subsection \<open>The handlers (lines 20--27 and 107--125)\<close>

text \<open>
  Each handler takes its C arguments and the state, and returns its result (if it
  has one) with the state it leaves. The argument types are kernel types
  (\<open>struct sock *\<close>, \<open>struct msghdr *\<close>, \<open>struct sk_buff *\<close>, \<open>size_t\<close>, \<open>long\<close>), left
  as type variables.
\<close>

definition netssd_rcv :: "'k kernel \<Rightarrow> 'skb \<Rightarrow> 'k machine \<Rightarrow> c_int \<times> 'k machine" where
  "netssd_rcv K skb s =
     (let s1 = snd (printk K (KERN_INFO K @ ''rcv is called'' @ [newline]) s)
      in (0, s1))"

definition netssd_err :: "'skb \<Rightarrow> u32 \<Rightarrow> 's \<Rightarrow> c_int \<times> 's" where
  "netssd_err skb info s = (0, s)"

definition netssd_close :: "'sock \<Rightarrow> 'long \<Rightarrow> 's \<Rightarrow> 's" where
  "netssd_close sk timeout s = s"

definition netssd_sendmsg :: "'sock \<Rightarrow> 'msghdr \<Rightarrow> 'size \<Rightarrow> 's \<Rightarrow> c_int \<times> 's" where
  "netssd_sendmsg sk msg len s = (0, s)"

definition netssd_recvmsg ::
  "'sock \<Rightarrow> 'msghdr \<Rightarrow> 'size \<Rightarrow> c_int \<Rightarrow> c_int \<Rightarrow> 'intptr \<Rightarrow> 's \<Rightarrow> c_int \<times> 's" where
  "netssd_recvmsg sk msg len noblock flags addr_len s = (0, s)"

definition netssd_hash :: "'sock \<Rightarrow> 's \<Rightarrow> c_int \<times> 's" where
  "netssd_hash sock s = (0, s)"

subsection \<open>Loading and unloading (lines 54--99)\<close>

text \<open>
  Lines 91--99. The result of \<open>inet_del_protocol\<close> is stored in the local \<open>rc\<close> and
  never read.
\<close>

definition netssd_cleanup_module :: "'k kernel \<Rightarrow> 'k machine \<Rightarrow> 'k machine" where
  "netssd_cleanup_module K s =
     (let (rc, s1) = inet_del_protocol K Addr_netssd_protocol (of_nat IPPROTO_NETSSDPROTO) s
      in proto_unregister K Addr_netssd_proto s1)"

text \<open>
  Lines 76--84: \<open>memset\<close> and the five assignments to the fields of \<open>netssd_protosw\<close>,
  in the order of the source.
\<close>

definition fill_protosw :: "'k kernel \<Rightarrow> 'k machine \<Rightarrow> 'k machine" where
  "fill_protosw K s =
     (let s1 = s\<lparr>netssd_protosw := zero_protosw\<rparr>;
          s2 = s1\<lparr>netssd_protosw := (netssd_protosw s1)\<lparr>sw_type := SOCK_RAW K\<rparr>\<rparr>;
          s3 = s2\<lparr>netssd_protosw :=
                    (netssd_protosw s2)\<lparr>sw_protocol := of_nat IPPROTO_NETSSDPROTO\<rparr>\<rparr>;
          s4 = s3\<lparr>netssd_protosw := (netssd_protosw s3)\<lparr>sw_prot := Addr_netssd_proto\<rparr>\<rparr>;
          s5 = s4\<lparr>netssd_protosw := (netssd_protosw s4)\<lparr>sw_ops := Addr_inet_dgram_ops\<rparr>\<rparr>;
          s6 = s5\<lparr>netssd_protosw :=
                    (netssd_protosw s5)\<lparr>sw_flags := INET_PROTOSW_REUSE K\<rparr>\<rparr>
      in s6)"

text \<open>
  Lines 54--89. The function calls \<open>cleanup_module\<close>, not \<open>netssd_cleanup_module\<close>:
  that symbol is defined by the macro \<open>module_exit\<close> of the kernel headers (line 103),
  so it is the first parameter here. For a loadable module the macro makes it an
  alias of its argument, which is \<open>netssd_cleanup_module\<close>; see \<open>module_init\<close> below.
\<close>

definition netssd_init_module ::
  "('k machine \<Rightarrow> 'k machine) \<Rightarrow> 'k kernel \<Rightarrow> 'k machine \<Rightarrow> c_int \<times> 'k machine" where
  "netssd_init_module cleanup_module K s =
     (let (rc, s1) = proto_register K Addr_netssd_proto 1 s in
      if rc = 0 then
        let s2 = snd (printk K
                   (KERN_INFO K @ ''Protocol registration is successful'' @ [newline]) s1);
            (rc, s3) = inet_add_protocol K Addr_netssd_protocol
                         (of_nat IPPROTO_NETSSDPROTO) s2 in
        if rc = 0 then
          let s4 = snd (printk K
                     (KERN_INFO K @ ''Protocol insertion successful'' @ [newline]) s3);
              s5 = fill_protosw K s4;
              s6 = inet_register_protosw K Addr_netssd_protosw s5
          in (0, s6)
        else (rc, cleanup_module s3)
      else (rc, cleanup_module s1))"

text \<open>Lines 102--103, for a loadable module: what the kernel runs at load time.\<close>

definition module_init :: "'k kernel \<Rightarrow> 'k machine \<Rightarrow> c_int \<times> 'k machine" where
  "module_init K = netssd_init_module (netssd_cleanup_module K) K"

subsection \<open>A kernel that records the calls it receives\<close>

text \<open>
  An instance of the parameters, to run the module on: its state is the list of the
  calls made so far, oldest first, each with its arguments; the three functions
  that return a code return the ones given. \<open>Call_inet_register_protosw\<close> also
  records the contents of the \<open>struct inet_protosw\<close> it is pointed to.
\<close>

datatype call =
    Call_printk string
  | Call_proto_register addr c_int
  | Call_proto_unregister addr
  | Call_inet_add_protocol addr "8 word"
  | Call_inet_del_protocol addr "8 word"
  | Call_inet_register_protosw addr inet_protosw

definition record_call :: "call \<Rightarrow> call list machine \<Rightarrow> call list machine" where
  "record_call c s = s\<lparr>kern := kern s @ [c]\<rparr>"

definition recording_kernel :: "c_int \<Rightarrow> c_int \<Rightarrow> c_int \<Rightarrow> call list kernel" where
  "recording_kernel rc_register rc_add rc_del =
     \<lparr>KERN_INFO = [CHR 0x01, CHR ''6''],
      SOCK_RAW = 3,
      INET_PROTOSW_REUSE = 1,
      sizeof_netssd_sock = 0,
      printk = (\<lambda>msg s. (of_nat (length msg), record_call (Call_printk msg) s)),
      proto_register = (\<lambda>p alloc_slab s.
        (rc_register, record_call (Call_proto_register p alloc_slab) s)),
      proto_unregister = (\<lambda>p s. record_call (Call_proto_unregister p) s),
      inet_add_protocol = (\<lambda>p num s.
        (rc_add, record_call (Call_inet_add_protocol p num) s)),
      inet_del_protocol = (\<lambda>p num s.
        (rc_del, record_call (Call_inet_del_protocol p num) s)),
      inet_register_protosw = (\<lambda>p s.
        record_call (Call_inet_register_protosw p (netssd_protosw s)) s)\<rparr>"

definition fresh :: "call list machine" where
  "fresh = load_state (recording_kernel 0 0 0) []"

section \<open>Properties\<close>

subsection \<open>The assignments to \<open>netssd_protosw\<close>\<close>

lemma fill_protosw_eq:
  "fill_protosw K s =
     s\<lparr>netssd_protosw :=
         \<lparr>sw_type = SOCK_RAW K, sw_protocol = 14, sw_prot = Addr_netssd_proto,
          sw_ops = Addr_inet_dgram_ops, sw_flags = INET_PROTOSW_REUSE K\<rparr>\<rparr>"
  by (simp add: fill_protosw_def zero_protosw_def IPPROTO_NETSSDPROTO_def)

subsection \<open>The handlers\<close>

text \<open>
  C1 (as amended). The handlers \<open>netssd_sendmsg\<close>, \<open>netssd_recvmsg\<close>, \<open>netssd_close\<close>,
  \<open>netssd_hash\<close> and \<open>netssd_err\<close> leave the state as it is, for every argument and
  every state, and the four of them that return \<open>int\<close> return 0. \<open>netssd_rcv\<close> returns
  0 as well, but its body is not empty: it makes one call of \<open>printk\<close>, with the
  message \<open>rcv is called\<close> at level \<open>KERN_INFO\<close>, and the state it leaves is the one
  that call leaves.
\<close>

theorem netssd_handlers_return_zero:
  "netssd_sendmsg sk msg len s = (0, s)
   \<and> netssd_recvmsg sk msg len noblock flags addr_len s = (0, s)
   \<and> netssd_close sk timeout s = s
   \<and> netssd_hash sk s = (0, s)
   \<and> netssd_err skb info s = (0, s)
   \<and> fst (netssd_rcv K skb m) = 0
   \<and> snd (netssd_rcv K skb m) =
       snd (printk K (KERN_INFO K @ ''rcv is called'' @ [newline]) m)"
  by (simp add: netssd_sendmsg_def netssd_recvmsg_def netssd_close_def netssd_hash_def
      netssd_err_def netssd_rcv_def)

text \<open>
  C1 (as stated) fails for \<open>netssd_rcv\<close>: on the kernel that records its calls, started
  in the state of a freshly loaded module, the state after \<open>netssd_rcv\<close> is not the
  state before, since the log has the message of line 21.
\<close>

theorem netssd_rcv_not_empty_stub:
  "netssd_rcv (recording_kernel 0 0 0) () fresh \<noteq> (0, fresh)"
  by (simp add: netssd_rcv_def recording_kernel_def record_call_def fresh_def
      load_state_def)

subsection \<open>Loading the module\<close>

text \<open>
  C10. Let \<open>rc1\<close> be what \<open>proto_register\<close> returns, and \<open>rc2\<close> what \<open>inet_add_protocol\<close>
  returns on the state that follows the first \<open>printk\<close>. Then \<open>netssd_init_module\<close>
  returns 0 exactly when both are 0. If \<open>rc1\<close> is not 0, it returns \<open>rc1\<close> and the last
  thing it did is the call of \<open>cleanup_module\<close> on the state \<open>proto_register\<close> left; if
  \<open>rc1\<close> is 0 and \<open>rc2\<close> is not, it returns \<open>rc2\<close> after \<open>cleanup_module\<close> on the state
  \<open>inet_add_protocol\<close> left. If both are 0, the last thing it did is the call
  \<open>inet_register_protosw(&netssd_protosw)\<close>, with \<open>netssd_protosw\<close> holding type
  \<open>SOCK_RAW\<close>, protocol 14, \<open>&netssd_proto\<close>, \<open>&inet_dgram_ops\<close> and the flag
  \<open>INET_PROTOSW_REUSE\<close>.
\<close>

theorem netssd_init_module_result:
  assumes reg: "proto_register K Addr_netssd_proto 1 s = (rc1, s1)"
    and add: "inet_add_protocol K Addr_netssd_protocol 14
                (snd (printk K (KERN_INFO K @ ''Protocol registration is successful''
                                  @ [newline]) s1)) = (rc2, s2)"
  shows "(fst (netssd_init_module cleanup_module K s) = 0 \<longleftrightarrow> rc1 = 0 \<and> rc2 = 0)
    \<and> (rc1 \<noteq> 0 \<longrightarrow> netssd_init_module cleanup_module K s = (rc1, cleanup_module s1))
    \<and> (rc1 = 0 \<and> rc2 \<noteq> 0 \<longrightarrow>
         netssd_init_module cleanup_module K s = (rc2, cleanup_module s2))
    \<and> (rc1 = 0 \<and> rc2 = 0 \<longrightarrow>
         netssd_init_module cleanup_module K s =
           (0, inet_register_protosw K Addr_netssd_protosw
                 ((snd (printk K (KERN_INFO K @ ''Protocol insertion successful''
                                    @ [newline]) s2))
                  \<lparr>netssd_protosw :=
                     \<lparr>sw_type = SOCK_RAW K, sw_protocol = 14,
                      sw_prot = Addr_netssd_proto, sw_ops = Addr_inet_dgram_ops,
                      sw_flags = INET_PROTOSW_REUSE K\<rparr>\<rparr>)))"
  using reg add
  by (simp add: netssd_init_module_def fill_protosw_eq IPPROTO_NETSSDPROTO_def Let_def)

text \<open>
  The three outcomes on the recording kernel, for a module loaded as a loadable
  module (\<open>cleanup_module\<close> is \<open>netssd_cleanup_module\<close>): both registrations succeed;
  \<open>proto_register\<close> returns \<open>-12\<close>; \<open>inet_add_protocol\<close> returns \<open>-1\<close>. The list is the
  sequence of kernel calls the module made.
\<close>

theorem netssd_init_module_result_witness:
  "module_init (recording_kernel 0 0 0) fresh =
     (0, fresh\<lparr>netssd_protosw :=
                 \<lparr>sw_type = 3, sw_protocol = 14, sw_prot = Addr_netssd_proto,
                  sw_ops = Addr_inet_dgram_ops, sw_flags = 1\<rparr>,
               kern :=
                 [Call_proto_register Addr_netssd_proto 1,
                  Call_printk ([CHR 0x01, CHR ''6'']
                    @ ''Protocol registration is successful'' @ [newline]),
                  Call_inet_add_protocol Addr_netssd_protocol 14,
                  Call_printk ([CHR 0x01, CHR ''6'']
                    @ ''Protocol insertion successful'' @ [newline]),
                  Call_inet_register_protosw Addr_netssd_protosw
                    \<lparr>sw_type = 3, sw_protocol = 14, sw_prot = Addr_netssd_proto,
                     sw_ops = Addr_inet_dgram_ops, sw_flags = 1\<rparr>]\<rparr>)
   \<and> module_init (recording_kernel (- 12) 0 0) fresh =
     (- 12, fresh\<lparr>kern :=
                 [Call_proto_register Addr_netssd_proto 1,
                  Call_inet_del_protocol Addr_netssd_protocol 14,
                  Call_proto_unregister Addr_netssd_proto]\<rparr>)
   \<and> module_init (recording_kernel 0 (- 1) 0) fresh =
     (- 1, fresh\<lparr>kern :=
                 [Call_proto_register Addr_netssd_proto 1,
                  Call_printk ([CHR 0x01, CHR ''6'']
                    @ ''Protocol registration is successful'' @ [newline]),
                  Call_inet_add_protocol Addr_netssd_protocol 14,
                  Call_inet_del_protocol Addr_netssd_protocol 14,
                  Call_proto_unregister Addr_netssd_proto]\<rparr>)"
proof -
  note run = netssd_init_module_result
    [OF prod.collapse [symmetric] prod.collapse [symmetric]]
  show ?thesis
    using run [where K = "recording_kernel 0 0 0" and s = fresh
        and cleanup_module = "netssd_cleanup_module (recording_kernel 0 0 0)"]
      run [where K = "recording_kernel (- 12) 0 0" and s = fresh
        and cleanup_module = "netssd_cleanup_module (recording_kernel (- 12) 0 0)"]
      run [where K = "recording_kernel 0 (- 1) 0" and s = fresh
        and cleanup_module = "netssd_cleanup_module (recording_kernel 0 (- 1) 0)"]
    by (simp add: module_init_def recording_kernel_def record_call_def
        netssd_cleanup_module_def IPPROTO_NETSSDPROTO_def fresh_def load_state_def)
qed

end
